theory Spec2Isabelle
  imports Complex_Main "HOL-Library.Sublist" "HOL-Library.AList"
begin

section \<open>Python strings\<close>

text \<open>
  A Python \<open>str\<close> is a sequence of Unicode code points, so it is modelled as a list of
  natural numbers; \<open>len\<close> is \<open>length\<close> and \<open>ord\<close> is the identity.  ASCII literals of
  the source are written \<open>cps ''...''\<close>.
\<close>

type_synonym pystr = "nat list"

definition cps :: "string \<Rightarrow> pystr" where
  "cps s = map of_char s"

text \<open>
  The characters for which \<open>str.isspace\<close> holds.  \<open>str.strip()\<close> and the class \<open>\s\<close> of
  the \<open>re\<close> module (on \<open>str\<close> patterns) use the same set.
\<close>

definition is_space :: "nat \<Rightarrow> bool" where
  "is_space c \<longleftrightarrow>
     (9 \<le> c \<and> c \<le> 13) \<or> (28 \<le> c \<and> c \<le> 32) \<or> c = 133 \<or> c = 160 \<or> c = 5760
     \<or> (8192 \<le> c \<and> c \<le> 8202) \<or> c = 8232 \<or> c = 8233 \<or> c = 8239 \<or> c = 8287
     \<or> c = 12288"

definition strip :: "pystr \<Rightarrow> pystr" where
  "strip s = rev (dropWhile is_space (rev (dropWhile is_space s)))"

text \<open>
  \<open>re.sub(r'C+', r, s)\<close> for a character class \<open>C\<close>: every maximal run of characters of
  the class is replaced by \<open>r\<close>.
\<close>

function sub_runs :: "(nat \<Rightarrow> bool) \<Rightarrow> pystr \<Rightarrow> pystr \<Rightarrow> pystr" where
  "sub_runs p r [] = []"
| "sub_runs p r (c # cs) =
     (if p c then r @ sub_runs p r (dropWhile p cs) else c # sub_runs p r cs)"
  by pat_completeness auto
termination
  by (relation "measure (\<lambda>(p, r, s). length s)")
     (auto simp: less_Suc_eq_le length_dropWhile_le)

text \<open>
  \<open>s.replace(old, new)\<close>: the occurrences of \<open>old\<close> are replaced from left to right, without
  overlap.  With an empty \<open>old\<close>, Python puts \<open>new\<close> before every character and at the end.
\<close>

function replace_from :: "pystr \<Rightarrow> pystr \<Rightarrow> pystr \<Rightarrow> pystr" where
  "replace_from old new [] = []"
| "replace_from old new (c # cs) =
     (if old \<noteq> [] \<and> prefix old (c # cs)
      then new @ replace_from old new (drop (length old) (c # cs))
      else c # replace_from old new cs)"
  by pat_completeness auto
termination
  by (relation "measure (\<lambda>(old, new, s). length s)") (auto simp: neq_Nil_conv)

definition replace :: "pystr \<Rightarrow> pystr \<Rightarrow> pystr \<Rightarrow> pystr" where
  "replace old new s =
     (if old = [] then new @ concat (map (\<lambda>c. c # new) s) else replace_from old new s)"

text \<open>\<open>sub in s\<close> on strings: \<open>sub\<close> occurs in \<open>s\<close> as a contiguous substring.\<close>

fun contains :: "pystr \<Rightarrow> pystr \<Rightarrow> bool" where
  "contains sub [] = (sub = [])"
| "contains sub (c # cs) = (prefix sub (c # cs) \<or> contains sub cs)"

section \<open>Text preprocessing (text\_processor.py)\<close>

text \<open>
  The literal of the second \<open>replace\<close> of the quote normalisation.  In the source file both
  lines of the normalisation are written with ASCII quotes: line 61 replaces \<open>"\<close> by \<open>"\<close>
  twice, and on line 62 the three apostrophes open a triple-quoted literal, so that the
  statement is \<open>text.replace(<literal>, "'")\<close> with the literal below (15 characters:
  comma, space, \<open>"'").replace(\<close>).
\<close>

definition quote_literal :: pystr where
  "quote_literal = [44, 32, 34, 39, 34, 41, 46] @ cps ''replace(''"

text \<open>
  \<open>TextProcessor.clean_text\<close>.  No statement of the \<open>try\<close> block raises on a \<open>str\<close>, so the
  \<open>except\<close> branch has no counterpart.
\<close>

definition clean_text :: "pystr \<Rightarrow> pystr" where
  "clean_text text0 =
     (if text0 = [] then []
      else
        let t1 = strip text0;
            t2 = sub_runs (\<lambda>c. c = 10) [32] t1;
            t3 = sub_runs is_space [32] t2;
            t4 = replace [34] [34] (replace [34] [34] t3);
            t5 = replace quote_literal [39] t4;
            t6 = filter (\<lambda>c. 32 \<le> c) t5
        in strip t6)"

text \<open>
  The external tokenizer (\<open>transformers.AutoTokenizer\<close>), when one could be loaded: its
  encoding of a text is a dictionary of integer arrays (\<open>None\<close> when the call raises), and
  its decoding of an id list a string (\<open>None\<close> when it raises).
\<close>

record tokenizer =
  tok_encode :: "pystr \<Rightarrow> (pystr \<rightharpoonup> int list list) option"
  tok_decode :: "int list \<Rightarrow> pystr option"

record text_processor =
  max_length :: nat
  tp_tokenizer :: "tokenizer option"

text \<open>
  The values of the dictionary a text is processed into: an integer array of shape
  \<open>(1, L)\<close>, as a list of rows, or the feature dictionary of \<open>extract_features\<close>, from
  feature names to numbers, whose computation is not modelled.
\<close>

type_synonym features = "(pystr \<times> real) list"

datatype tval = Ids "int list list" | Feat features

text \<open>\<open>TextProcessor._simple_tokenize\<close>: the character codec.\<close>

definition simple_tokenize :: "text_processor \<Rightarrow> pystr \<Rightarrow> (pystr \<rightharpoonup> tval)" where
  "simple_tokenize tp text0 =
     (let clean = clean_text text0;
          char_ids = map int (take (max_length tp) clean);
          char_ids = (if length char_ids < max_length tp
                      then char_ids @ replicate (max_length tp - length char_ids) 0
                      else char_ids)
      in [cps ''input_ids'' \<mapsto> Ids [char_ids],
          cps ''attention_mask'' \<mapsto> Ids [map (\<lambda>x. if x > 0 then 1 else 0) char_ids]])"

text \<open>
  \<open>TextProcessor.tokenize_text\<close> with its default arguments.  A failure of the external
  tokenizer, or an encoding without \<open>input_ids\<close>, falls back to the character codec.
\<close>

definition tokenize_text :: "text_processor \<Rightarrow> pystr \<Rightarrow> (pystr \<rightharpoonup> tval)" where
  "tokenize_text tp text0 =
     (case tp_tokenizer tp of
        None \<Rightarrow> simple_tokenize tp text0
      | Some tk \<Rightarrow>
          (case tok_encode tk (clean_text text0) of
             None \<Rightarrow> simple_tokenize tp text0
           | Some encoded \<Rightarrow>
               (case encoded (cps ''input_ids'') of
                  None \<Rightarrow> simple_tokenize tp text0
                | Some ids \<Rightarrow>
                    (let result = [cps ''input_ids'' \<mapsto> Ids ids];
                         result = (case encoded (cps ''attention_mask'') of
                                     None \<Rightarrow> result
                                   | Some m \<Rightarrow> result(cps ''attention_mask'' \<mapsto> Ids m));
                         result = (case encoded (cps ''token_type_ids'') of
                                     None \<Rightarrow> result
                                   | Some m \<Rightarrow> result(cps ''token_type_ids'' \<mapsto> Ids m))
                     in result))))"

text \<open>
  The argument of \<open>decode_tokens\<close>: a Python list of ids, or an integer array, which is
  flattened first.
\<close>

datatype token_ids = IdList "int list" | IdArray "int list list"

fun tolist :: "token_ids \<Rightarrow> int list" where
  "tolist (IdList xs) = xs"
| "tolist (IdArray rows) = concat rows"

text \<open>
  \<open>TextProcessor.decode_tokens\<close>.  Without a tokenizer every positive id is turned into
  its character; \<open>chr\<close> raises beyond the last code point \<open>0x10FFFF\<close>, and every exception
  gives the empty string.
\<close>

definition decode_tokens :: "text_processor \<Rightarrow> token_ids \<Rightarrow> pystr" where
  "decode_tokens tp token_ids =
     (case tp_tokenizer tp of
        None \<Rightarrow>
          (let ids = filter (\<lambda>tid. tid > 0) (tolist token_ids)
           in if list_ex (\<lambda>tid. tid > 1114111) ids then [] else map nat ids)
      | Some tk \<Rightarrow>
          (case tok_decode tk (tolist token_ids) of
             None \<Rightarrow> []
           | Some decoded \<Rightarrow> strip decoded))"

text \<open>
  \<open>TextProcessor.process_for_inference\<close>: the tokens, with the features under
  \<open>text_features\<close> on request.  \<open>feat\<close> stands for \<open>extract_features\<close>.
\<close>

definition text_process_for_inference ::
  "(pystr \<Rightarrow> features) \<Rightarrow> text_processor \<Rightarrow> pystr \<Rightarrow> bool \<Rightarrow> (pystr \<rightharpoonup> tval)" where
  "text_process_for_inference feat tp text0 return_features =
     (let tokens = tokenize_text tp text0
      in if return_features then tokens(cps ''text_features'' \<mapsto> Feat (feat text0)) else tokens)"

section \<open>Text extraction from model outputs (text\_output\_processor.py)\<close>

text \<open>
  \<open>str.lower\<close> and \<open>str.upper\<close>.  On a string of ASCII characters they map letter by
  letter; on any other string the result is that of Python's Unicode case mapping, which
  is not part of the repository and is taken as a parameter (\<open>ul\<close>, \<open>uu\<close>).
\<close>

definition py_lower :: "(pystr \<Rightarrow> pystr) \<Rightarrow> pystr \<Rightarrow> pystr" where
  "py_lower ul s =
     (if list_all (\<lambda>c. c < 128) s then map (\<lambda>c. if 65 \<le> c \<and> c \<le> 90 then c + 32 else c) s
      else ul s)"

definition py_upper :: "(pystr \<Rightarrow> pystr) \<Rightarrow> pystr \<Rightarrow> pystr" where
  "py_upper uu s =
     (if list_all (\<lambda>c. c < 128) s then map (\<lambda>c. if 97 \<le> c \<and> c \<le> 122 then c - 32 else c) s
      else uu s)"

text \<open>\<open>s.split(sep)\<close> for a separator of one character, and \<open>sep.join(xs)\<close>.\<close>

fun split_on :: "nat \<Rightarrow> pystr \<Rightarrow> pystr list" where
  "split_on sep [] = [[]]"
| "split_on sep (c # cs) =
     (let r = split_on sep cs in if c = sep then [] # r else (c # hd r) # tl r)"

fun join :: "pystr \<Rightarrow> pystr list \<Rightarrow> pystr" where
  "join sep [] = []"
| "join sep [x] = x"
| "join sep (x # y # ys) = x @ sep @ join sep (y # ys)"

definition endswith_any :: "nat list \<Rightarrow> pystr \<Rightarrow> bool" where
  "endswith_any cs s \<longleftrightarrow> s \<noteq> [] \<and> last s \<in> set cs"

text \<open>
  \<open>re.sub(r'\s+([.,!?;:])', r'\1', s)\<close>: a run of white space is deleted when the
  character after the whole run is one of the six punctuation marks.  A match can only
  start at the first character of a run, and after a match the scan goes on behind the
  punctuation mark.
\<close>

definition is_punct :: "nat \<Rightarrow> bool" where
  "is_punct c \<longleftrightarrow> c \<in> set (cps ''.,!?;:'')"

function drop_space_before_punct :: "pystr \<Rightarrow> pystr" where
  "drop_space_before_punct [] = []"
| "drop_space_before_punct (c # cs) =
     (if is_space c then
        (case dropWhile is_space cs of
           [] \<Rightarrow> c # drop_space_before_punct cs
         | d # ds \<Rightarrow> if is_punct d then d # drop_space_before_punct ds
                    else c # drop_space_before_punct cs)
      else c # drop_space_before_punct cs)"
  by pat_completeness auto
termination
proof (relation "measure length", goal_cases)
  case 1
  show ?case by simp
next
  case (2 c cs)
  show ?case by simp
next
  case (3 c cs d ds)
  have "length (dropWhile is_space cs) \<le> length cs"
    by (rule length_dropWhile_le)
  with 3 show ?case by simp
next
  case (4 c cs d ds)
  show ?case by simp
next
  case (5 c cs)
  show ?case by simp
qed

text \<open>
  Python numbers: \<open>int\<close>, and \<open>float\<close> idealised as a real number (no rounding, no NaN).
  \<open>int(t)\<close> truncates towards zero.  A \<open>bool\<close> is the \<open>int\<close> 0 or 1.
\<close>

datatype num = PInt int | PFloat real

fun py_int :: "num \<Rightarrow> int" where
  "py_int (PInt i) = i"
| "py_int (PFloat r) = (if 0 \<le> r then \<lfloor>r\<rfloor> else \<lceil>r\<rceil>)"

fun num_val :: "num \<Rightarrow> real" where
  "num_val (PInt i) = of_int i"
| "num_val (PFloat r) = r"

text \<open>
  The values of an output dictionary.  A \<open>list\<close> or a \<open>tuple\<close> holds strings or numbers
  (the source looks at the first element only; sequences are taken to be homogeneous), a
  numeric \<open>numpy\<close> array is its shape and its elements in row-major order, and \<open>POther\<close> is
  a value of any other type.
\<close>

datatype seq_kind = PyList | PyTuple

datatype ndarray = NDArray (nd_shape: "nat list") (nd_flat: "num list")

datatype pyval =
    PStr pystr
  | PStrs seq_kind "pystr list"
  | PNums seq_kind "num list"
  | PArray ndarray
  | POther

text \<open>
  The tokenizer of a \<open>TextOutputProcessor\<close>, when it has one: the padding id (\<open>None\<close> when
  there is no attribute \<open>pad_token_id\<close>, or it is \<open>None\<close>) and the decoder, which gives the
  text or raises (\<open>Inl\<close> of the exception's message).
\<close>

record out_tokenizer =
  pad_token_id :: "int option"
  decode :: "num list \<Rightarrow> bool \<Rightarrow> pystr + pystr"

text \<open>
  What is outside the repository and not a tensor: the Unicode case mappings, and the
  token that \<open>process_logits_to_text\<close> samples from an array of logits (lines 51 to 70:
  floating point and \<open>np.random.choice\<close>; \<open>None\<close> when one of these lines raises).
\<close>

record text_env =
  unicode_lower :: "pystr \<Rightarrow> pystr"
  unicode_upper :: "pystr \<Rightarrow> pystr"
  sample_token :: "ndarray \<Rightarrow> int option"

text \<open>\<open>TextOutputProcessor.decode_token_ids\<close>, on a list of ids or a flattened array.\<close>

definition decode_token_ids :: "out_tokenizer option \<Rightarrow> num list \<Rightarrow> bool \<Rightarrow> pystr" where
  "decode_token_ids tk token_ids skip_special_tokens =
     (case tk of
        Some t \<Rightarrow>
          (let ids = (case pad_token_id t of
                        Some pad \<Rightarrow>
                          if skip_special_tokens
                          then filter (\<lambda>x. num_val x \<noteq> of_int pad) token_ids else token_ids
                      | None \<Rightarrow> token_ids)
           in case decode t ids skip_special_tokens of
                Inr decoded \<Rightarrow> strip decoded
              | Inl e \<Rightarrow> cps ''[Decoding Error: '' @ e @ cps '']'')
      | None \<Rightarrow>
          strip (map (\<lambda>t. nat (py_int t))
                   (filter (\<lambda>t. 32 \<le> py_int t \<and> py_int t \<le> 126) token_ids)))"

text \<open>\<open>TextOutputProcessor.process_logits_to_text\<close>.\<close>

definition process_logits_to_text :: "text_env \<Rightarrow> out_tokenizer option \<Rightarrow> ndarray \<Rightarrow> pystr" where
  "process_logits_to_text env tk logits =
     (case sample_token env logits of
        Some selected_token_id \<Rightarrow> decode_token_ids tk [PInt selected_token_id] True
      | None \<Rightarrow> cps ''[Generation Error]'')"

definition special_tokens :: "pystr list" where
  "special_tokens =
     [cps ''<pad>'', cps ''<unk>'', cps ''<s>'', cps ''</s>'', cps ''<|endoftext|>'',
      cps ''[CLS]'', cps ''[SEP]'', cps ''[PAD]'', cps ''[UNK]'', cps ''[MASK]'']"

text \<open>The capitalisation of one sentence of \<open>clean_generated_text\<close> (line 106).\<close>

definition capitalize_sentence :: "text_env \<Rightarrow> pystr \<Rightarrow> pystr" where
  "capitalize_sentence env sentence =
     (if length sentence > 1
      then py_upper (unicode_upper env) [hd sentence] @ tl sentence
      else py_upper (unicode_upper env) sentence)"

text \<open>
  \<open>TextOutputProcessor.clean_generated_text\<close>.  No statement of its \<open>try\<close> block raises on
  a \<open>str\<close>.
\<close>

definition clean_generated_text :: "text_env \<Rightarrow> pystr \<Rightarrow> pystr" where
  "clean_generated_text env text0 =
     (if text0 = [] then []
      else
        let t1 = foldl (\<lambda>t token. replace token [] t) text0 special_tokens;
            t2 = sub_runs (\<lambda>c. c = 10) [10] t1;
            t3 = sub_runs (\<lambda>c. c = 32) [32] t2;
            t4 = drop_space_before_punct t3;
            sentences = split_on 46 t4;
            cleaned_sentences =
              map (capitalize_sentence env) (filter (\<lambda>s. s \<noteq> []) (map strip sentences));
            t5 = join [46, 32] cleaned_sentences;
            t6 = (if t5 \<noteq> [] \<and> \<not> endswith_any (cps ''.!?'') t5 then t5 @ [46] else t5)
        in strip t6)"

definition priority_keys :: "pystr list" where
  "priority_keys =
     [cps ''generated_text'', cps ''text_output'', cps ''caption'', cps ''description'',
      cps ''answer'', cps ''response'', cps ''prediction'', cps ''output_text'',
      cps ''decoded_text'', cps ''text'', cps ''content'']"

text \<open>The sentinel of a failed extraction (line 179), 17 code points.\<close>

definition extraction_failed :: pystr where
  "extraction_failed =
     [12486, 12461, 12473, 12488, 20986, 21147, 12398, 25277, 20986, 12395, 22833, 25943,
      12375, 12414, 12375, 12383, 12290]"

text \<open>\<open>isinstance(value, (list, np.ndarray))\<close>.\<close>

fun is_list_or_array :: "pyval \<Rightarrow> bool" where
  "is_list_or_array (PStrs k xs) = (k = PyList)"
| "is_list_or_array (PNums k xs) = (k = PyList)"
| "is_list_or_array (PArray a) = True"
| "is_list_or_array v = False"

text \<open>
  The candidates of \<open>extract_text_from_multimodal_output\<close>, before the sort: the priority
  keys that are present, in the order of \<open>priority_keys\<close>; then, in the order of the
  dictionary, the other keys with "text" in their lower-case form; then the keys with
  "logit" in their lower-case form whose value is a list or an array.
\<close>

definition text_candidates :: "text_env \<Rightarrow> (pystr \<times> pyval) list \<Rightarrow> (pystr \<times> pyval \<times> int) list" where
  "text_candidates env outputs =
     concat (map (\<lambda>key. case map_of outputs key of Some v \<Rightarrow> [(key, v, 10)] | None \<Rightarrow> [])
               priority_keys)
     @ map (\<lambda>(key, v). (key, v, 5))
         (filter (\<lambda>(key, v). key \<notin> set priority_keys
                   \<and> contains (cps ''text'') (py_lower (unicode_lower env) key)) outputs)
     @ map (\<lambda>(key, v). (key, v, 1))
         (filter (\<lambda>(key, v). contains (cps ''logit'') (py_lower (unicode_lower env) key)
                   \<and> is_list_or_array v) outputs)"

text \<open>
  The body of the loop over the sorted candidates: the text a candidate returns, or
  \<open>None\<close> when the loop goes on to the next one.  The functions called in the \<open>try\<close> block
  catch their own exceptions, so the \<open>except\<close> branch has no counterpart.
\<close>

fun candidate_text :: "text_env \<Rightarrow> out_tokenizer option \<Rightarrow> pystr \<Rightarrow> pyval \<Rightarrow> pystr option" where
  "candidate_text env tk key (PStr s) = Some (clean_generated_text env s)"
| "candidate_text env tk key (PStrs k xs) =
     (case xs of [] \<Rightarrow> None | x # _ \<Rightarrow> Some (clean_generated_text env x))"
| "candidate_text env tk key (PNums k xs) =
     (case xs of [] \<Rightarrow> None
      | x # _ \<Rightarrow> Some (clean_generated_text env (decode_token_ids tk xs True)))"
| "candidate_text env tk key (PArray a) =
     (if contains (cps ''logit'') (py_lower (unicode_lower env) key)
      then Some (clean_generated_text env (process_logits_to_text env tk a))
      else Some (clean_generated_text env (decode_token_ids tk (nd_flat a) True)))"
| "candidate_text env tk key POther = None"

fun first_text :: "text_env \<Rightarrow> out_tokenizer option \<Rightarrow> (pystr \<times> pyval \<times> int) list \<Rightarrow> pystr" where
  "first_text env tk [] = extraction_failed"
| "first_text env tk ((key, v, priority) # rest) =
     (case candidate_text env tk key v of
        Some t \<Rightarrow> t
      | None \<Rightarrow> first_text env tk rest)"

text \<open>
  \<open>TextOutputProcessor.extract_text_from_multimodal_output\<close>.  The output dictionary is a
  list of pairs with distinct keys, in insertion order; \<open>list.sort\<close> with \<open>reverse=True\<close> is
  stable, as is \<open>sort_key\<close> on the negated priority.
\<close>

definition extract_text_from_multimodal_output ::
  "text_env \<Rightarrow> out_tokenizer option \<Rightarrow> (pystr \<times> pyval) list \<Rightarrow> pystr" where
  "extract_text_from_multimodal_output env tk outputs =
     first_text env tk (sort_key (\<lambda>(key, v, priority). - priority) (text_candidates env outputs))"

text \<open>The sentinel of \<open>format_conversation_output\<close> for an empty text (line 187).\<close>

definition no_response :: pystr where
  "no_response =
     [24540, 31572, 12434, 29983, 25104, 12391, 12365, 12414, 12379, 12435, 12391, 12375,
      12383, 12290]"

text \<open>
  \<open>TextOutputProcessor.format_conversation_output\<close>, for a prompt that is a string.  The
  literals are the code points of the Japanese words for question (36074, 21839),
  explanation (35500, 26126), teach (25945, 12360), generate (29983, 25104) and create
  (20316, 25104), and of the full-width marks.
\<close>

definition format_conversation_output :: "text_env \<Rightarrow> pystr \<Rightarrow> pystr \<Rightarrow> bool \<Rightarrow> pystr" where
  "format_conversation_output env text0 user_prompt add_context =
     (if text0 = [] then no_response
      else
        let t = clean_generated_text env text0
        in if add_context \<and> user_prompt \<noteq> [] then
             (if contains [36074, 21839] user_prompt \<or> contains [63] user_prompt
                 \<or> contains [65311] user_prompt
              then (if \<not> endswith_any [46, 33, 63, 12290, 65281, 65311] t then t @ [12290] else t)
              else if contains [35500, 26126] user_prompt \<or> contains [25945, 12360] user_prompt
              then replace [10] [32] t
              else if contains [29983, 25104] user_prompt \<or> contains [20316, 25104] user_prompt
              then t
              else t)
           else t)"

section \<open>Image preprocessing (image\_processor.py)\<close>

text \<open>
  An image is an RGB array of shape \<open>(height, width, 3)\<close>, which is what both loaders
  produce; the pixels are not modelled.  The decoders (PIL, OpenCV) are outside the
  repository: \<open>decode_bytes\<close> and \<open>imread\<close> give the loaded array, or \<open>None\<close> where the
  loader logs the failure and returns \<open>None\<close>.  \<open>scaled_size w h target_w target_h\<close> stands
  for the two values \<open>int(w * scale)\<close> and \<open>int(h * scale)\<close> of lines 124 to 126, which are
  computed in floating point.
\<close>

record image =
  img_h :: nat
  img_w :: nat

datatype image_input = ImgBytes "nat list" | ImgPath pystr | ImgArray image | ImgOther

record image_env =
  decode_bytes :: "nat list \<Rightarrow> image option"
  imread :: "pystr \<Rightarrow> image option"
  scaled_size :: "nat \<Rightarrow> nat \<Rightarrow> nat \<Rightarrow> nat \<Rightarrow> nat \<times> nat"

text \<open>The same two values in exact arithmetic.\<close>

definition exact_scaled_size :: "nat \<Rightarrow> nat \<Rightarrow> nat \<Rightarrow> nat \<Rightarrow> nat \<times> nat" where
  "exact_scaled_size w h target_w target_h =
     (let scale = min (real target_w / real w) (real target_h / real h)
      in (nat \<lfloor>real w * scale\<rfloor>, nat \<lfloor>real h * scale\<rfloor>))"

record image_processor =
  target_size :: "nat \<times> nat"

text \<open>
  \<open>cv2.resize(image, (w, h))\<close>: an array of shape \<open>(h, w, 3)\<close>; OpenCV raises (\<open>None\<close>) on an
  empty source and on an empty destination size.
\<close>

fun cv2_resize :: "image \<Rightarrow> nat \<times> nat \<Rightarrow> image option" where
  "cv2_resize img (w, h) =
     (if img_h img = 0 \<or> img_w img = 0 \<or> w = 0 \<or> h = 0 then None
      else Some \<lparr>img_h = h, img_w = w\<rparr>)"

text \<open>
  The number of indices that the slice \<open>start:stop\<close> selects on an axis of length \<open>n\<close>
  (negative bounds count from the end, and bounds are clipped to the axis).
\<close>

definition slice_len :: "int \<Rightarrow> int \<Rightarrow> nat \<Rightarrow> nat" where
  "slice_len start stop n =
     (let clip = (\<lambda>i. if i < 0 then max (i + int n) 0 else min i (int n))
      in nat (clip stop - clip start))"

text \<open>
  The \<open>try\<close> block of \<open>resize_maintain_aspect_ratio\<close>; \<open>None\<close> when it raises: the division
  by a zero width or height, a resize to an empty size, or a slice of the canvas that the
  resized array cannot be broadcast to.
\<close>

fun resize_on_canvas :: "image_env \<Rightarrow> image \<Rightarrow> nat \<times> nat \<Rightarrow> image option" where
  "resize_on_canvas env img (target_w, target_h) =
     (if img_w img = 0 \<or> img_h img = 0 then None
      else
        case scaled_size env (img_w img) (img_h img) target_w target_h of
          (new_w, new_h) \<Rightarrow>
            (case cv2_resize img (new_w, new_h) of
               None \<Rightarrow> None
             | Some resized \<Rightarrow>
                 (let y_offset = (int target_h - int new_h) div 2;
                      x_offset = (int target_w - int new_w) div 2;
                      rows = slice_len y_offset (y_offset + int new_h) target_h;
                      cols = slice_len x_offset (x_offset + int new_w) target_w
                  in if (img_h resized = rows \<or> img_h resized = 1)
                        \<and> (img_w resized = cols \<or> img_w resized = 1)
                     then Some \<lparr>img_h = target_h, img_w = target_w\<rparr>
                     else None)))"

text \<open>
  \<open>ImageProcessor.resize_maintain_aspect_ratio\<close>: the \<open>except\<close> branch resizes without
  keeping the aspect ratio, and an exception of that call leaves the function (\<open>None\<close>).
\<close>

definition resize_maintain_aspect_ratio :: "image_env \<Rightarrow> image \<Rightarrow> nat \<times> nat \<Rightarrow> image option" where
  "resize_maintain_aspect_ratio env img tsize =
     (case resize_on_canvas env img tsize of
        Some result \<Rightarrow> Some result
      | None \<Rightarrow> cv2_resize img tsize)"

text \<open>
  \<open>ImageProcessor.preprocess_image\<close>: the shape of the tensor (resize to the target size,
  scale, standardise, move the channels first, add the batch axis), or \<open>None\<close> when the
  exception of the resize is raised again.
\<close>

definition preprocess_image :: "image_processor \<Rightarrow> image \<Rightarrow> nat list option" where
  "preprocess_image ip img =
     (case cv2_resize img (target_size ip) of
        None \<Rightarrow> None
      | Some image_resized \<Rightarrow> Some [1, 3, img_h image_resized, img_w image_resized])"

definition load_image :: "image_env \<Rightarrow> image_input \<Rightarrow> image option" where
  "load_image env image_input =
     (case image_input of
        ImgBytes b \<Rightarrow> decode_bytes env b
      | ImgPath p \<Rightarrow> imread env p
      | ImgArray a \<Rightarrow> Some a
      | ImgOther \<Rightarrow> None)"

text \<open>
  \<open>ImageProcessor.process_for_inference\<close>: the shape of the tensor, or \<open>None\<close> (an input
  that is not loaded, an unsupported input type, or any exception).
\<close>

definition image_process_for_inference ::
  "image_env \<Rightarrow> image_processor \<Rightarrow> image_input \<Rightarrow> bool \<Rightarrow> nat list option" where
  "image_process_for_inference env ip image_input maintain_aspect_ratio =
     (case load_image env image_input of
        None \<Rightarrow> None
      | Some img \<Rightarrow>
          if maintain_aspect_ratio
          then (case resize_maintain_aspect_ratio env img (target_size ip) of
                  None \<Rightarrow> None
                | Some img' \<Rightarrow> preprocess_image ip img')
          else preprocess_image ip img)"

section \<open>The inference engine (npu\_inference\_engine.py)\<close>

subsection \<open>Compiled models, the runtime and the world\<close>

text \<open>
  A port of a compiled OpenVINO model.  Reading \<open>shape\<close> raises for a port whose shape is
  dynamic (\<open>None\<close>); \<open>any_name\<close> and \<open>element_type\<close> are read as they are.
\<close>

record port =
  any_name :: pystr
  port_shape :: "nat list option"
  element_type :: pystr

text \<open>
  The tensors the engine passes to a compiled model: the preprocessed image (its shape),
  an entry of the processed text, and the dummy arrays of the benchmark.  A call passes
  either a list (\<open>compiled_model([x])\<close>, bound by position) or a dictionary from port names
  to tensors, kept in insertion order.
\<close>

datatype tensor =
    ImageTensor "nat list"
  | TextTensor tval
  | RandomTensor "nat list"
  | OnesTensor "nat list"

datatype call_inputs = Positional "tensor list" | Named "(pystr \<times> tensor) list"

text \<open>An exception: the ones the engine's own statements raise, or one from outside.\<close>

datatype py_error = IndexError | KeyError pystr | RuntimeError pystr

record compiled_model =
  cm_inputs :: "port list"
  cm_outputs :: "port list"
  cm_call :: "call_inputs \<Rightarrow> py_error + pyval list"

record model_config =
  cfg_type :: pystr
  cfg_path :: pystr
  cfg_inputs :: "(pystr \<times> nat list \<times> pystr) list"
  cfg_outputs :: "(pystr \<times> nat list \<times> pystr) list"
  cfg_input_shapes :: "(pystr \<times> nat list) list"

text \<open>
  What the engine reaches outside itself: the file system (\<open>Path.exists\<close>, and \<open>str\<close> of
  a \<open>Path\<close>), \<open>npu_manager\<close> (\<open>compile_model\<close> gives \<open>None\<close> when compilation fails), and
  the parameters of the processors.
\<close>

record runtime =
  path_exists :: "pystr \<Rightarrow> bool"
  path_str :: "pystr \<Rightarrow> pystr"
  compile_model :: "pystr \<Rightarrow> (pystr \<times> pystr) list \<Rightarrow> compiled_model option"
  npu_device :: pystr
  rt_image :: image_env
  rt_text :: text_env
  rt_features :: "pystr \<Rightarrow> features"

record engine =
  models :: "pystr \<rightharpoonup> compiled_model"
  model_configs :: "pystr \<rightharpoonup> model_config"
  eng_image_processor :: image_processor
  eng_text_processor :: text_processor
  eng_out_tokenizer :: "out_tokenizer option"

text \<open>
  The world an operation runs in: the successive readings of \<open>time.time()\<close>, how many of
  them have been taken, and the trace of what has happened, in order.
\<close>

datatype event = ClockRead | Invoked pystr call_inputs

record world =
  clock :: "nat \<Rightarrow> real"
  ticks :: nat
  trace :: "event list"

definition time_time :: "world \<Rightarrow> real \<times> world" where
  "time_time w = (clock w (ticks w), w\<lparr>ticks := Suc (ticks w), trace := trace w @ [ClockRead]\<rparr>)"

definition call_model ::
  "pystr \<Rightarrow> compiled_model \<Rightarrow> call_inputs \<Rightarrow> world \<Rightarrow> (py_error + pyval list) \<times> world" where
  "call_model name cm inputs w = (cm_call cm inputs, w\<lparr>trace := trace w @ [Invoked name inputs]\<rparr>)"

subsection \<open>The registry\<close>

text \<open>
  The loops over the ports of \<open>load_model\<close>: a dictionary from port names to shape and
  element type, or \<open>None\<close> when a read of \<open>shape\<close> raises.
\<close>

fun port_info ::
  "(pystr \<times> nat list \<times> pystr) list \<Rightarrow> port list \<Rightarrow> (pystr \<times> nat list \<times> pystr) list option" where
  "port_info info [] = Some info"
| "port_info info (p # ps) =
     (case port_shape p of
        None \<Rightarrow> None
      | Some sh \<Rightarrow> port_info (AList.update (any_name p) (sh, element_type p) info) ps)"

text \<open>
  \<open>NPUInferenceEngine.load_model\<close>.  The compiled model is stored under the name (line
  59) before the ports are read; an exception of a read is caught at line 91.
\<close>

definition load_model ::
  "runtime \<Rightarrow> engine \<Rightarrow> pystr \<Rightarrow> pystr \<Rightarrow> pystr \<Rightarrow> (pystr \<times> nat list) list option
     \<Rightarrow> (pystr \<times> pystr) list \<Rightarrow> bool \<times> engine" where
  "load_model rt eng name path mtype input_shapes compile_config =
     (if \<not> path_exists rt path then (False, eng)
      else
        case compile_model rt (path_str rt path) compile_config of
          None \<Rightarrow> (False, eng)
        | Some compiled \<Rightarrow>
            (let eng1 = eng\<lparr>models := (models eng)(name \<mapsto> compiled)\<rparr>
             in case port_info [] (cm_inputs compiled) of
                  None \<Rightarrow> (False, eng1)
                | Some input_info \<Rightarrow>
                    (case port_info [] (cm_outputs compiled) of
                       None \<Rightarrow> (False, eng1)
                     | Some output_info \<Rightarrow>
                         (True,
                          eng1\<lparr>model_configs := (model_configs eng1)(name \<mapsto>
                            \<lparr>cfg_type = mtype, cfg_path = path_str rt path,
                             cfg_inputs = input_info, cfg_outputs = output_info,
                             cfg_input_shapes =
                               (case input_shapes of None \<Rightarrow> [] | Some s \<Rightarrow> s)\<rparr>)\<rparr>))))"

text \<open>
  \<open>NPUInferenceEngine.unload_model\<close>.  The second \<open>del\<close> raises \<open>KeyError\<close> when the name
  has no configuration; the first one has been done by then.
\<close>

definition unload_model :: "engine \<Rightarrow> pystr \<Rightarrow> bool \<times> engine" where
  "unload_model eng name =
     (case models eng name of
        None \<Rightarrow> (False, eng)
      | Some _ \<Rightarrow>
          (let eng1 = eng\<lparr>models := (models eng)(name := None)\<rparr>
           in case model_configs eng1 name of
                None \<Rightarrow> (False, eng1)
              | Some _ \<Rightarrow> (True, eng1\<lparr>model_configs := (model_configs eng1)(name := None)\<rparr>)))"

datatype registry_op =
    Load pystr pystr pystr "(pystr \<times> nat list) list option" "(pystr \<times> pystr) list"
  | Unload pystr

fun apply_op :: "runtime \<Rightarrow> engine \<Rightarrow> registry_op \<Rightarrow> engine" where
  "apply_op rt eng (Load name path mtype input_shapes compile_config) =
     snd (load_model rt eng name path mtype input_shapes compile_config)"
| "apply_op rt eng (Unload name) = snd (unload_model eng name)"

subsection \<open>Results\<close>

text \<open>
  The dictionary an entry point returns.  A key that a dictionary does not have is
  \<open>None\<close>; \<open>r_error\<close> holds the exception whose \<open>str\<close> the source stores, and \<open>r_timing\<close> the
  three times (preprocess, inference, total).
\<close>

record inference_result =
  r_success :: bool
  r_error :: "py_error option"
  r_model_name :: pystr
  r_outputs :: "(pystr \<times> pyval) list option"
  r_timing :: "(real \<times> real \<times> real) option"
  r_input_shape :: "nat list option"
  r_input_text_length :: "nat option"
  r_device :: "pystr option"
  r_generated_text :: "pystr option"

text \<open>The dictionary of the \<open>except\<close> branch of an entry point.\<close>

definition failure :: "py_error \<Rightarrow> pystr \<Rightarrow> inference_result" where
  "failure e name =
     \<lparr>r_success = False, r_error = Some e, r_model_name = name, r_outputs = None,
      r_timing = None, r_input_shape = None, r_input_text_length = None, r_device = None,
      r_generated_text = None\<rparr>"

text \<open>
  The loop that names the results: \<open>outputs[output_port.any_name] = result[i]\<close>.  Reading
  a result that is not there raises.
\<close>

fun collect_outputs ::
  "(pystr \<times> pyval) list \<Rightarrow> port list \<Rightarrow> pyval list \<Rightarrow> py_error + (pystr \<times> pyval) list" where
  "collect_outputs outs [] result = Inr outs"
| "collect_outputs outs (p # ps) [] = Inl IndexError"
| "collect_outputs outs (p # ps) (v # vs) =
     collect_outputs (AList.update (any_name p) v outs) ps vs"

text \<open>\<open>config.get(key, False)\<close> on \<open>preprocess_config or {}\<close>.\<close>

definition config_flag :: "(pystr \<rightharpoonup> bool) option \<Rightarrow> pystr \<Rightarrow> bool" where
  "config_flag preprocess_config key =
     (case preprocess_config of
        None \<Rightarrow> False
      | Some config \<Rightarrow> (case config key of None \<Rightarrow> False | Some b \<Rightarrow> b))"

subsection \<open>Image inference\<close>

text \<open>
  \<open>NPUInferenceEngine.infer_image\<close>.  The result is \<open>None\<close> where the source returns
  \<open>None\<close> (lines 133 and 150), and the dictionary of the \<open>except\<close> branch where a
  statement of the \<open>try\<close> block raises: the first input port of a model without inputs
  (line 159), the call of the model, a result that is missing.
\<close>

text \<open>
  Lines 162 to 170, which the three entry points share: the call of the model, the two
  readings of the clock, and the loop that names the results.
\<close>

definition run_and_collect ::
  "pystr \<Rightarrow> compiled_model \<Rightarrow> call_inputs \<Rightarrow> world
     \<Rightarrow> (py_error + (pystr \<times> pyval) list \<times> real \<times> real) \<times> world" where
  "run_and_collect name compiled inputs w =
     (case call_model name compiled inputs w of
        (Inl e, w1) \<Rightarrow> (Inl e, w1)
      | (Inr result, w1) \<Rightarrow>
          (let (t2, w2) = time_time w1;
               (t3, w3) = time_time w2
           in case collect_outputs [] (cm_outputs compiled) result of
                Inl e \<Rightarrow> (Inl e, w3)
              | Inr outs \<Rightarrow> (Inr (outs, t2, t3), w3)))"

definition infer_image ::
  "runtime \<Rightarrow> engine \<Rightarrow> pystr \<Rightarrow> image_input \<Rightarrow> (pystr \<rightharpoonup> bool) option \<Rightarrow> world
     \<Rightarrow> inference_result option \<times> world" where
  "infer_image rt eng name image_input preprocess_config w =
     (case models eng name of
        None \<Rightarrow> (None, w)
      | Some compiled \<Rightarrow>
          (let (start_time, w1) = time_time w
           in case image_process_for_inference (rt_image rt) (eng_image_processor eng)
                     image_input (config_flag preprocess_config (cps ''maintain_aspect_ratio'')) of
                None \<Rightarrow> (None, w1)
              | Some processed_image \<Rightarrow>
                  (let (t1, w2) = time_time w1;
                       (infer_start, w3) = time_time w2
                   in case cm_inputs compiled of
                        [] \<Rightarrow> (Some (failure IndexError name), w3)
                      | first_port # _ \<Rightarrow>
                          (case run_and_collect name compiled
                                  (Positional [ImageTensor processed_image]) w3 of
                             (Inl e, w4) \<Rightarrow> (Some (failure e name), w4)
                           | (Inr (outs, t2, t3), w4) \<Rightarrow>
                               (Some \<lparr>r_success = True, r_error = None, r_model_name = name,
                                  r_outputs = Some outs,
                                  r_timing = Some (t1 - start_time, t2 - infer_start, t3 - start_time),
                                  r_input_shape = Some processed_image,
                                  r_input_text_length = None,
                                  r_device = Some (npu_device rt),
                                  r_generated_text = None\<rparr>, w4)))))"

subsection \<open>Text inference\<close>

text \<open>
  The loop of \<open>infer_text\<close> over the input ports (lines 230 to 235): a port named as a
  key of the processed text gets that entry, and a port named \<open>input\<close>, \<open>input_ids\<close> or
  \<open>inputs\<close> gets the \<open>input_ids\<close>.
\<close>

fun bind_text_inputs ::
  "(pystr \<rightharpoonup> tval) \<Rightarrow> (pystr \<times> tensor) list \<Rightarrow> port list \<Rightarrow> (pystr \<times> tensor) list" where
  "bind_text_inputs processed_text inputs [] = inputs"
| "bind_text_inputs processed_text inputs (p # ps) =
     (let input_name = any_name p
      in case processed_text input_name of
           Some v \<Rightarrow>
             bind_text_inputs processed_text (AList.update input_name (TextTensor v) inputs) ps
         | None \<Rightarrow>
             (case processed_text (cps ''input_ids'') of
                Some ids \<Rightarrow>
                  if input_name \<in> set [cps ''input'', cps ''input_ids'', cps ''inputs'']
                  then bind_text_inputs processed_text
                         (AList.update input_name (TextTensor ids) inputs) ps
                  else bind_text_inputs processed_text inputs ps
              | None \<Rightarrow> bind_text_inputs processed_text inputs ps))"

text \<open>
  \<open>NPUInferenceEngine.infer_text\<close>.  The result is \<open>None\<close> for a model that is not loaded
  (line 207) and when no input port is bound (line 239).
\<close>

definition infer_text ::
  "runtime \<Rightarrow> engine \<Rightarrow> pystr \<Rightarrow> pystr \<Rightarrow> (pystr \<rightharpoonup> bool) option \<Rightarrow> world
     \<Rightarrow> inference_result option \<times> world" where
  "infer_text rt eng name text_input preprocess_config w =
     (case models eng name of
        None \<Rightarrow> (None, w)
      | Some compiled \<Rightarrow>
          (let (start_time, w1) = time_time w;
               processed_text =
                 text_process_for_inference (rt_features rt) (eng_text_processor eng)
                   text_input (config_flag preprocess_config (cps ''return_features''));
               (t1, w2) = time_time w1;
               (infer_start, w3) = time_time w2;
               inputs = bind_text_inputs processed_text [] (cm_inputs compiled)
           in if inputs = [] then (None, w3)
              else
                (case run_and_collect name compiled (Named inputs) w3 of
                   (Inl e, w4) \<Rightarrow> (Some (failure e name), w4)
                 | (Inr (outs, t2, t3), w4) \<Rightarrow>
                     (Some \<lparr>r_success = True, r_error = None, r_model_name = name,
                        r_outputs = Some outs,
                        r_timing = Some (t1 - start_time, t2 - infer_start, t3 - start_time),
                        r_input_shape = None,
                        r_input_text_length = Some (length text_input),
                        r_device = Some (npu_device rt),
                        r_generated_text = None\<rparr>, w4))))"

subsection \<open>Multimodal inference\<close>

definition image_input_names :: "pystr list" where
  "image_input_names = [cps ''image'', cps ''images'', cps ''pixel_values'', cps ''input_image'']"

text \<open>The test of line 325 on the name of a port.\<close>

definition image_like :: "text_env \<Rightarrow> pystr \<Rightarrow> bool" where
  "image_like env input_name \<longleftrightarrow>
     list_ex (\<lambda>name. contains name (py_lower (unicode_lower env) input_name)) image_input_names"

text \<open>
  The first loop over the input ports (lines 323 to 327), which stops at the first port
  that the test accepts.
\<close>

fun bind_image_input :: "text_env \<Rightarrow> nat list \<Rightarrow> port list \<Rightarrow> (pystr \<times> tensor) list" where
  "bind_image_input env processed_image [] = []"
| "bind_image_input env processed_image (p # ps) =
     (if image_like env (any_name p) then [(any_name p, ImageTensor processed_image)]
      else bind_image_input env processed_image ps)"

text \<open>The second loop (lines 330 to 333), which starts from the dictionary of the first.\<close>

fun bind_text_ports ::
  "(pystr \<rightharpoonup> tval) \<Rightarrow> (pystr \<times> tensor) list \<Rightarrow> port list \<Rightarrow> (pystr \<times> tensor) list" where
  "bind_text_ports processed_text inputs [] = inputs"
| "bind_text_ports processed_text inputs (p # ps) =
     (case processed_text (any_name p) of
        Some v \<Rightarrow> bind_text_ports processed_text (AList.update (any_name p) (TextTensor v) inputs) ps
      | None \<Rightarrow> bind_text_ports processed_text inputs ps)"

definition multimodal_inputs ::
  "text_env \<Rightarrow> nat list \<Rightarrow> (pystr \<rightharpoonup> tval) \<Rightarrow> port list \<Rightarrow> (pystr \<times> tensor) list" where
  "multimodal_inputs env processed_image processed_text ports =
     bind_text_ports processed_text (bind_image_input env processed_image ports) ports"

text \<open>
  Lines 350 to 361: the generated text of a model whose configured type is
  \<open>multimodal\<close>; \<open>None\<close> stands for Python's \<open>None\<close> and for the empty string, which line 380
  treats alike.
\<close>

definition generated_text_of ::
  "text_env \<Rightarrow> out_tokenizer option \<Rightarrow> model_config option \<Rightarrow> (pystr \<times> pyval) list \<Rightarrow> pystr
     \<Rightarrow> pystr option" where
  "generated_text_of env tk config outs text_input =
     (case config of
        None \<Rightarrow> None
      | Some c \<Rightarrow>
          if cfg_type c = cps ''multimodal'' then
            (let generated = extract_text_from_multimodal_output env tk outs
             in if generated \<noteq> [] then
                  (let formatted = format_conversation_output env generated text_input True
                   in if formatted \<noteq> [] then Some formatted else None)
                else None)
          else None)"

text \<open>
  \<open>NPUInferenceEngine.infer_multimodal\<close>.  The result is \<open>None\<close> for a model that is not
  loaded (line 289) and when the image is not preprocessed or the processed text is an
  empty dictionary (line 310).
\<close>

definition infer_multimodal ::
  "runtime \<Rightarrow> engine \<Rightarrow> pystr \<Rightarrow> image_input \<Rightarrow> pystr \<Rightarrow> (pystr \<rightharpoonup> bool) option \<Rightarrow> world
     \<Rightarrow> inference_result option \<times> world" where
  "infer_multimodal rt eng name image_input text_input preprocess_config w =
     (case models eng name of
        None \<Rightarrow> (None, w)
      | Some compiled \<Rightarrow>
          (let (start_time, w1) = time_time w;
               processed_text =
                 text_process_for_inference (rt_features rt) (eng_text_processor eng)
                   text_input (config_flag preprocess_config (cps ''return_features''))
           in case image_process_for_inference (rt_image rt) (eng_image_processor eng)
                     image_input (config_flag preprocess_config (cps ''maintain_aspect_ratio'')) of
                None \<Rightarrow> (None, w1)
              | Some processed_image \<Rightarrow>
                  if processed_text = Map.empty then (None, w1)
                  else
                    (let (t1, w2) = time_time w1;
                         (infer_start, w3) = time_time w2;
                         inputs = multimodal_inputs (rt_text rt) processed_image processed_text
                                    (cm_inputs compiled)
                     in case run_and_collect name compiled (Named inputs) w3 of
                          (Inl e, w4) \<Rightarrow> (Some (failure e name), w4)
                        | (Inr (outs, t2, t3), w4) \<Rightarrow>
                            (Some \<lparr>r_success = True, r_error = None, r_model_name = name,
                               r_outputs = Some outs,
                               r_timing = Some (t1 - start_time, t2 - infer_start, t3 - start_time),
                               r_input_shape = Some processed_image,
                               r_input_text_length = Some (length text_input),
                               r_device = Some (npu_device rt),
                               r_generated_text =
                                 generated_text_of (rt_text rt) (eng_out_tokenizer eng)
                                   (model_configs eng name) outs text_input\<rparr>, w4))))"

subsection \<open>The benchmark\<close>













section \<open>Notions of the properties, and examples\<close>

text \<open>
  The condition of the extraction claim as the specification words it: no key of the
  output dictionary is a priority key, none contains "text", and none contains "logit"
  with a list or an array as its value.  Here "contains" is read on the key as it is.
\<close>

definition no_candidate_as_stated :: "(pystr \<times> pyval) list \<Rightarrow> bool" where
  "no_candidate_as_stated outs \<longleftrightarrow>
     list_all (\<lambda>(key, v). key \<notin> set priority_keys
                \<and> \<not> contains (cps ''text'') key
                \<and> \<not> (contains (cps ''logit'') key \<and> is_list_or_array v)) outs"

text \<open>The same condition on the lower-case form of the key, as the source tests it.\<close>

definition no_candidate :: "text_env \<Rightarrow> (pystr \<times> pyval) list \<Rightarrow> bool" where
  "no_candidate env outs \<longleftrightarrow>
     list_all (\<lambda>(key, v). key \<notin> set priority_keys
                \<and> \<not> contains (cps ''text'') (py_lower (unicode_lower env) key)
                \<and> \<not> (contains (cps ''logit'') (py_lower (unicode_lower env) key)
                      \<and> is_list_or_array v)) outs"




text \<open>The calls of compiled models in a trace, in order: the model name and the inputs.\<close>

fun invocations :: "event list \<Rightarrow> (pystr \<times> call_inputs) list" where
  "invocations [] = []"
| "invocations (ClockRead # es) = invocations es"
| "invocations (Invoked name inputs # es) = (name, inputs) # invocations es"

text \<open>The first port that the test of line 325 accepts, if there is one.\<close>

definition first_image_port :: "text_env \<Rightarrow> port list \<Rightarrow> port option" where
  "first_image_port env ports = List.find (\<lambda>p. image_like env (any_name p)) ports"


text \<open>
  The engine after \<open>__init__\<close>, with the default processors: no model, target size
  224 by 224, maximum length 512; \<open>tk\<close> is the tokenizer that could be loaded, if any.
\<close>

definition new_engine :: "tokenizer option \<Rightarrow> engine" where
  "new_engine tk =
     \<lparr>models = Map.empty, model_configs = Map.empty,
      eng_image_processor = \<lparr>target_size = (224, 224)\<rparr>,
      eng_text_processor = \<lparr>max_length = 512, tp_tokenizer = tk\<rparr>,
      eng_out_tokenizer = None\<rparr>"

text \<open>
  Examples for the evaluation of the definitions.  The text environment is the identity
  outside ASCII and samples no token; the image environment decodes nothing and scales
  exactly; the example model has an image port, a text port and the output
  \<open>{"embedding": [0.1, 0.2]}\<close>; the dynamic model is the same with an input port whose
  shape is dynamic; the runtime finds and compiles \<open>model.xml\<close> and \<open>dynamic.xml\<close>.
\<close>

definition example_text_env :: text_env where
  "example_text_env =
     \<lparr>unicode_lower = (\<lambda>s. s), unicode_upper = (\<lambda>s. s), sample_token = (\<lambda>a. None)\<rparr>"

definition example_image_env :: image_env where
  "example_image_env =
     \<lparr>decode_bytes = (\<lambda>b. None), imread = (\<lambda>p. None), scaled_size = exact_scaled_size\<rparr>"

definition example_model :: compiled_model where
  "example_model =
     \<lparr>cm_inputs =
        [\<lparr>any_name = cps ''pixel_values'', port_shape = Some [1, 3, 224, 224],
          element_type = cps ''f32''\<rparr>,
         \<lparr>any_name = cps ''input_ids'', port_shape = Some [1, 512],
          element_type = cps ''i64''\<rparr>],
      cm_outputs =
        [\<lparr>any_name = cps ''embedding'', port_shape = Some [1, 2], element_type = cps ''f32''\<rparr>],
      cm_call = (\<lambda>inputs. Inr [PNums PyList [PFloat 0.1, PFloat 0.2]])\<rparr>"

definition dynamic_model :: compiled_model where
  "dynamic_model =
     example_model\<lparr>cm_inputs :=
       [\<lparr>any_name = cps ''pixel_values'', port_shape = None, element_type = cps ''f32''\<rparr>]\<rparr>"

definition example_runtime :: runtime where
  "example_runtime =
     \<lparr>path_exists = (\<lambda>p. p = cps ''model.xml'' \<or> p = cps ''dynamic.xml''),
      path_str = (\<lambda>p. p),
      compile_model = (\<lambda>p config. if p = cps ''model.xml'' then Some example_model
                                   else if p = cps ''dynamic.xml'' then Some dynamic_model
                                   else None),
      npu_device = cps ''CPU'',
      rt_image = example_image_env,
      rt_text = example_text_env,
      rt_features = (\<lambda>t. [])\<rparr>"

definition example_world :: world where
  "example_world = \<lparr>clock = (\<lambda>n. real n), ticks = 0, trace = []\<rparr>"

text \<open>The engine with the example model loaded as \<open>m\<close>, of type \<open>multimodal\<close>.\<close>

definition example_engine :: engine where
  "example_engine =
     snd (load_model example_runtime (new_engine None) (cps ''m'') (cps ''model.xml'')
            (cps ''multimodal'') None [])"

text \<open>The outputs \<open>{"answer": "42", "some_logits": [0.1, 5.0, 0.3]}\<close>.\<close>

definition answer_outputs :: "(pystr \<times> pyval) list" where
  "answer_outputs =
     [(cps ''answer'', PStr (cps ''42'')),
      (cps ''some_logits'', PNums PyList [PFloat 0.1, PFloat 5.0, PFloat 0.3])]"

section \<open>Properties\<close>

subsection \<open>Evaluation of string literals\<close>

lemma cps_Hi: "cps ''Hi'' = [72, 105]"
  by (simp add: cps_def)

lemma clean_text_Hi: "clean_text [72, 105] = [72, 105]"
  by (simp add: clean_text_def strip_def is_space_def replace_def quote_literal_def cps_def)

lemma input_ids_neq_attention_mask: "cps ''input_ids'' \<noteq> cps ''attention_mask''"
  by (simp add: cps_def)

subsection \<open>The character codec\<close>

text \<open>
  C5.  Without a tokenizer, and with a maximum length \<open>L\<close> that has room for the two
  characters, the text "Hi" is tokenized into the ids 72, 105 followed by zeros, \<open>L\<close> ids
  in all, and \<open>decode_tokens\<close> on that array gives "Hi" back.
\<close>

theorem simple_tokenize_Hi_roundtrip:
  assumes "tp_tokenizer tp = None" and "2 \<le> max_length tp"
  shows "\<exists>ids. simple_tokenize tp (cps ''Hi'') (cps ''input_ids'') = Some (Ids [ids])
           \<and> ids = [72, 105] @ replicate (max_length tp - 2) 0
           \<and> length ids = max_length tp
           \<and> decode_tokens tp (IdArray [ids]) = cps ''Hi''"
proof -
  obtain k where k: "max_length tp = Suc (Suc k)"
    using assms(2) by (metis Suc_le_D numeral_2_eq_2 Suc_le_mono)
  have "take (max_length tp) [72, 105::nat] = [72, 105]"
    by (simp add: k)
  then show ?thesis
    using assms(1)
    by (simp add: simple_tokenize_def cps_Hi clean_text_Hi input_ids_neq_attention_mask
        decode_tokens_def k Let_def)
qed

theorem simple_tokenize_Hi_roundtrip_witness:
  "\<exists>ids. simple_tokenize \<lparr>max_length = 512, tp_tokenizer = None\<rparr> (cps ''Hi'') (cps ''input_ids'')
            = Some (Ids [ids])
         \<and> ids = [72, 105] @ replicate 510 0
         \<and> length ids = 512
         \<and> decode_tokens \<lparr>max_length = 512, tp_tokenizer = None\<rparr> (IdArray [ids]) = cps ''Hi''"
  using simple_tokenize_Hi_roundtrip [of "\<lparr>max_length = 512, tp_tokenizer = None\<rparr>"]
  by simp

subsection \<open>Evaluation of the examples\<close>

lemma example_engine_models: "models example_engine (cps ''m'') = Some example_model"
  by (simp add: example_engine_def load_model_def example_runtime_def new_engine_def
      example_model_def)

lemma example_engine_processors:
  "eng_image_processor example_engine = \<lparr>target_size = (224, 224)\<rparr>"
  "eng_text_processor example_engine = \<lparr>max_length = 512, tp_tokenizer = None\<rparr>"
  "eng_out_tokenizer example_engine = None"
  by (simp_all add: example_engine_def load_model_def example_runtime_def new_engine_def
      example_model_def)

lemma example_runtime_simps:
  "rt_image example_runtime = example_image_env"
  "rt_text example_runtime = example_text_env"
  by (simp_all add: example_runtime_def)

lemma example_image:
  "image_process_for_inference example_image_env \<lparr>target_size = (224, 224)\<rparr>
     (ImgArray \<lparr>img_h = 100, img_w = 400\<rparr>) False = Some [1, 3, 224, 224]"
  by (simp add: image_process_for_inference_def load_image_def preprocess_image_def)

lemma config_flag_None: "config_flag None k = False"
  by (simp add: config_flag_def)

lemma example_model_call: "cm_call example_model x = Inr [PNums PyList [PFloat 0.1, PFloat 0.2]]"
  by (simp add: example_model_def)

lemma example_model_outputs:
  "collect_outputs [] (cm_outputs example_model) [PNums PyList [PFloat 0.1, PFloat 0.2]]
     = Inr [(cps ''embedding'', PNums PyList [PFloat 0.1, PFloat 0.2])]"
  by (simp add: example_model_def)

subsection \<open>The processed text\<close>

lemma text_keys_distinct:
  "cps ''input_ids'' \<noteq> cps ''attention_mask''"
  "cps ''input_ids'' \<noteq> cps ''token_type_ids''"
  "cps ''input_ids'' \<noteq> cps ''text_features''"
  by (simp_all add: cps_def)

lemma tokenize_text_input_ids: "tokenize_text tp t (cps ''input_ids'') \<noteq> None"
  by (simp add: tokenize_text_def simple_tokenize_def text_keys_distinct Let_def
      split: option.splits)

lemma processed_text_input_ids:
  "text_process_for_inference feat tp t rf (cps ''input_ids'') \<noteq> None"
  using tokenize_text_input_ids [of tp t]
  by (simp add: text_process_for_inference_def text_keys_distinct Let_def)

lemma processed_text_nonempty: "text_process_for_inference feat tp t rf \<noteq> Map.empty"
  using processed_text_input_ids [of feat tp t rf] by auto

subsection \<open>What the entry points return\<close>

text \<open>
  C1, as the specification states it, fails: an entry point returns no result at all
  for a model that is not loaded.  On a new engine the three of them return \<open>None\<close>.
\<close>

theorem unloaded_model_returns_none_counterexample:
  "fst (infer_image example_runtime (new_engine None) (cps ''m'')
          (ImgArray \<lparr>img_h = 100, img_w = 400\<rparr>) None example_world) = None
   \<and> fst (infer_text example_runtime (new_engine None) (cps ''m'') (cps ''Hi'') None
            example_world) = None
   \<and> fst (infer_multimodal example_runtime (new_engine None) (cps ''m'')
            (ImgArray \<lparr>img_h = 100, img_w = 400\<rparr>) (cps ''Hi'') None example_world) = None"
  by (simp add: infer_image_def infer_text_def infer_multimodal_def new_engine_def)

text \<open>
  C1, amended.  An entry point returns no result exactly when the model is not loaded,
  when the image is not preprocessed (\<open>infer_image\<close>, \<open>infer_multimodal\<close>), or when no
  input port is bound (\<open>infer_text\<close>).  Every result it does return carries the model
  name, and either reports success, with the outputs and the timing and without an error,
  or reports failure, with the error and without outputs or timing.
\<close>

theorem entry_points_result_shape:
  "(fst (infer_image rt eng name image_input cfg w) = None \<longleftrightarrow>
      models eng name = None
      \<or> image_process_for_inference (rt_image rt) (eng_image_processor eng) image_input
           (config_flag cfg (cps ''maintain_aspect_ratio'')) = None)
   \<and> (fst (infer_text rt eng name text_input cfg w) = None \<longleftrightarrow>
        (case models eng name of
           None \<Rightarrow> True
         | Some compiled \<Rightarrow>
             bind_text_inputs
               (text_process_for_inference (rt_features rt) (eng_text_processor eng) text_input
                  (config_flag cfg (cps ''return_features''))) [] (cm_inputs compiled) = []))
   \<and> (fst (infer_multimodal rt eng name image_input text_input cfg w) = None \<longleftrightarrow>
        models eng name = None
        \<or> image_process_for_inference (rt_image rt) (eng_image_processor eng) image_input
             (config_flag cfg (cps ''maintain_aspect_ratio'')) = None)
   \<and> (\<forall>r. fst (infer_image rt eng name image_input cfg w) = Some r
            \<or> fst (infer_text rt eng name text_input cfg w) = Some r
            \<or> fst (infer_multimodal rt eng name image_input text_input cfg w) = Some r \<longrightarrow>
          r_model_name r = name
          \<and> (if r_success r then r_error r = None \<and> r_outputs r \<noteq> None \<and> r_timing r \<noteq> None
              else r_error r \<noteq> None \<and> r_outputs r = None \<and> r_timing r = None))"
proof -
  have A: "fst (infer_image rt eng name image_input cfg w) = None \<longleftrightarrow>
      models eng name = None
      \<or> image_process_for_inference (rt_image rt) (eng_image_processor eng) image_input
           (config_flag cfg (cps ''maintain_aspect_ratio'')) = None"
    by (auto simp: infer_image_def Let_def split: option.splits prod.splits list.splits sum.splits)
  have B: "fst (infer_text rt eng name text_input cfg w) = None \<longleftrightarrow>
        (case models eng name of
           None \<Rightarrow> True
         | Some compiled \<Rightarrow>
             bind_text_inputs
               (text_process_for_inference (rt_features rt) (eng_text_processor eng) text_input
                  (config_flag cfg (cps ''return_features''))) [] (cm_inputs compiled) = [])"
    by (auto simp: infer_text_def Let_def split: option.splits prod.splits list.splits sum.splits)
  have C: "fst (infer_multimodal rt eng name image_input text_input cfg w) = None \<longleftrightarrow>
        models eng name = None
        \<or> image_process_for_inference (rt_image rt) (eng_image_processor eng) image_input
             (config_flag cfg (cps ''maintain_aspect_ratio'')) = None"
    by (auto simp: infer_multimodal_def Let_def processed_text_nonempty
        split: option.splits prod.splits list.splits sum.splits)
  have D: "r_model_name r = name
          \<and> (if r_success r then r_error r = None \<and> r_outputs r \<noteq> None \<and> r_timing r \<noteq> None
              else r_error r \<noteq> None \<and> r_outputs r = None \<and> r_timing r = None)"
    if "fst (infer_image rt eng name image_input cfg w) = Some r
            \<or> fst (infer_text rt eng name text_input cfg w) = Some r
            \<or> fst (infer_multimodal rt eng name image_input text_input cfg w) = Some r" for r
  proof -
    from that consider
      (i) "fst (infer_image rt eng name image_input cfg w) = Some r"
      | (t) "fst (infer_text rt eng name text_input cfg w) = Some r"
      | (m) "fst (infer_multimodal rt eng name image_input text_input cfg w) = Some r"
      by blast
    then show ?thesis
    proof cases
      case i
      then show ?thesis
        by (auto simp: infer_image_def Let_def failure_def
            split: option.splits prod.splits list.splits sum.splits)
    next
      case t
      then show ?thesis
        by (auto simp: infer_text_def Let_def failure_def
            split: option.splits prod.splits list.splits sum.splits if_splits)
    next
      case m
      then show ?thesis
        by (auto simp: infer_multimodal_def Let_def failure_def
            split: option.splits prod.splits list.splits sum.splits if_splits)
    qed
  qed
  show ?thesis
    using A B C D by blast
qed

theorem entry_points_result_shape_witness:
  "fst (infer_image example_runtime example_engine (cps ''m'')
          (ImgArray \<lparr>img_h = 100, img_w = 400\<rparr>) None example_world) \<noteq> None
   \<and> fst (infer_multimodal example_runtime example_engine (cps ''m'')
          (ImgArray \<lparr>img_h = 100, img_w = 400\<rparr>) (cps ''Hi'') None example_world) \<noteq> None"
  using entry_points_result_shape [of example_runtime example_engine "cps ''m''"
      "ImgArray \<lparr>img_h = 100, img_w = 400\<rparr>" None example_world "cps ''Hi''"]
  by (simp add: example_engine_models example_engine_processors example_runtime_simps
      config_flag_None example_image)

subsection \<open>The text extractor\<close>

lemma answer_candidates:
  "text_candidates env answer_outputs =
     [(cps ''answer'', PStr (cps ''42''), 10),
      (cps ''some_logits'', PNums PyList [PFloat 0.1, PFloat 5.0, PFloat 0.3], 1)]"
  by (simp add: answer_outputs_def text_candidates_def priority_keys_def cps_def py_lower_def)

lemma clean_generated_text_42: "clean_generated_text env (cps ''42'') = cps ''42.''"
  by (simp add: clean_generated_text_def special_tokens_def cps_def replace_def strip_def
      is_space_def is_punct_def capitalize_sentence_def py_upper_def endswith_any_def Let_def)

text \<open>
  C2.  For the outputs \<open>{"answer": "42", "some_logits": [0.1, 5.0, 0.3]}\<close> the candidates
  are "answer" with priority 10 and then "some_logits" with priority 1, and the extractor
  returns "42.", the cleaned text of the first, whatever the tokenizer and the
  environment.
\<close>

theorem extract_prefers_answer:
  "text_candidates env answer_outputs =
     [(cps ''answer'', PStr (cps ''42''), 10),
      (cps ''some_logits'', PNums PyList [PFloat 0.1, PFloat 5.0, PFloat 0.3], 1)]
   \<and> extract_text_from_multimodal_output env tk answer_outputs = cps ''42.''"
proof -
  have "extract_text_from_multimodal_output env tk answer_outputs = cps ''42.''"
    unfolding extract_text_from_multimodal_output_def answer_candidates
    by (simp add: clean_generated_text_42)
  then show ?thesis
    using answer_candidates [of env] by simp
qed

theorem extract_prefers_answer_witness:
  "extract_text_from_multimodal_output example_text_env None answer_outputs = [52, 50, 46]"
  using extract_prefers_answer [of example_text_env None]
  by (simp add: cps_def)

lemma extract_no_candidates:
  "text_candidates env outs = [] \<Longrightarrow>
     extract_text_from_multimodal_output env tk outs = extraction_failed"
  by (simp add: extract_text_from_multimodal_output_def)

lemma priority_key_absent:
  "list_all (\<lambda>(key, v). key \<notin> set priority_keys) outs \<Longrightarrow> k \<in> set priority_keys \<Longrightarrow>
     map_of outs k = None"
  by (induction outs) auto

lemma no_candidate_empty:
  assumes "no_candidate env outs"
  shows "text_candidates env outs = []"
proof -
  have a: "list_all (\<lambda>(key, v). key \<notin> set priority_keys) outs"
    using assms by (auto simp: no_candidate_def list_all_iff)
  have 1: "concat (map (\<lambda>key. case map_of outs key of Some v \<Rightarrow> [(key, v, 10::int)] | None \<Rightarrow> [])
               priority_keys) = []"
    using priority_key_absent [OF a] by (simp add: concat_eq_Nil_conv)
  have 2: "filter (\<lambda>(key, v). key \<notin> set priority_keys
                   \<and> contains (cps ''text'') (py_lower (unicode_lower env) key)) outs = []"
    using assms by (auto simp: no_candidate_def list_all_iff filter_empty_conv)
  have 3: "filter (\<lambda>(key, v). contains (cps ''logit'') (py_lower (unicode_lower env) key)
                   \<and> is_list_or_array v) outs = []"
    using assms by (auto simp: no_candidate_def list_all_iff filter_empty_conv)
  show ?thesis
    unfolding text_candidates_def 1 2 3 by simp
qed

lemma example_no_candidate:
  "no_candidate example_text_env [(cps ''embedding'', PNums PyList [PFloat 0.1, PFloat 0.2])]"
  by (simp add: no_candidate_def priority_keys_def cps_def py_lower_def example_text_env_def)

text \<open>
  C3, as the specification states it, fails: the key "TEXT" is no priority key and
  contains neither "text" nor "logit", yet the source tests the lower-case form of the
  key, takes it as a candidate and returns the cleaned text "Hi." instead of the
  sentinel.
\<close>

theorem upper_case_text_key_counterexample:
  "no_candidate_as_stated [(cps ''TEXT'', PStr (cps ''hi''))]
   \<and> extract_text_from_multimodal_output example_text_env None
        [(cps ''TEXT'', PStr (cps ''hi''))] = cps ''Hi.''
   \<and> cps ''Hi.'' \<noteq> extraction_failed"
proof (intro conjI)
  show "no_candidate_as_stated [(cps ''TEXT'', PStr (cps ''hi''))]"
    by (simp add: no_candidate_as_stated_def priority_keys_def cps_def)
  show "extract_text_from_multimodal_output example_text_env None
        [(cps ''TEXT'', PStr (cps ''hi''))] = cps ''Hi.''"
    by (simp add: extract_text_from_multimodal_output_def text_candidates_def
        priority_keys_def cps_def py_lower_def example_text_env_def clean_generated_text_def
        special_tokens_def replace_def strip_def is_space_def is_punct_def
        capitalize_sentence_def py_upper_def endswith_any_def Let_def)
  show "cps ''Hi.'' \<noteq> extraction_failed"
    by (simp add: cps_def extraction_failed_def)
qed

text \<open>
  C3, amended.  When no key of the outputs is a priority key, none has "text" in its
  lower-case form, and none has "logit" in its lower-case form with a list or an array as
  its value, the extractor returns the sentinel.  And when a multimodal inference whose
  model is loaded, whose image is preprocessed and whose call returns has such outputs,
  it returns a result with \<open>success\<close> true and these outputs.
\<close>

theorem no_candidate_gives_sentinel:
  "(no_candidate env outs \<longrightarrow>
      extract_text_from_multimodal_output env tk outs = extraction_failed)
   \<and> (models eng name = Some compiled
        \<and> image_process_for_inference (rt_image rt) (eng_image_processor eng) image_input
             (config_flag cfg (cps ''maintain_aspect_ratio'')) = Some processed_image
        \<and> cm_call compiled
             (Named (multimodal_inputs (rt_text rt) processed_image
                (text_process_for_inference (rt_features rt) (eng_text_processor eng) text_input
                   (config_flag cfg (cps ''return_features''))) (cm_inputs compiled))) = Inr result
        \<and> collect_outputs [] (cm_outputs compiled) result = Inr outs
        \<and> no_candidate (rt_text rt) outs \<longrightarrow>
      (\<exists>r w'. infer_multimodal rt eng name image_input text_input cfg w = (Some r, w')
          \<and> r_success r \<and> r_outputs r = Some outs
          \<and> extract_text_from_multimodal_output (rt_text rt) (eng_out_tokenizer eng) outs
              = extraction_failed))"
proof (intro conjI impI)
  assume "no_candidate env outs"
  then show "extract_text_from_multimodal_output env tk outs = extraction_failed"
    by (simp add: no_candidate_empty extract_no_candidates)
next
  assume h: "models eng name = Some compiled
        \<and> image_process_for_inference (rt_image rt) (eng_image_processor eng) image_input
             (config_flag cfg (cps ''maintain_aspect_ratio'')) = Some processed_image
        \<and> cm_call compiled
             (Named (multimodal_inputs (rt_text rt) processed_image
                (text_process_for_inference (rt_features rt) (eng_text_processor eng) text_input
                   (config_flag cfg (cps ''return_features''))) (cm_inputs compiled))) = Inr result
        \<and> collect_outputs [] (cm_outputs compiled) result = Inr outs
        \<and> no_candidate (rt_text rt) outs"
  then have e: "extract_text_from_multimodal_output (rt_text rt) (eng_out_tokenizer eng) outs
              = extraction_failed"
    by (simp add: no_candidate_empty extract_no_candidates)
  from h have "\<exists>r w'. infer_multimodal rt eng name image_input text_input cfg w = (Some r, w')
          \<and> r_success r \<and> r_outputs r = Some outs"
    by (simp add: infer_multimodal_def Let_def processed_text_nonempty run_and_collect_def
        call_model_def time_time_def split: prod.splits)
  with e show "\<exists>r w'. infer_multimodal rt eng name image_input text_input cfg w = (Some r, w')
          \<and> r_success r \<and> r_outputs r = Some outs
          \<and> extract_text_from_multimodal_output (rt_text rt) (eng_out_tokenizer eng) outs
              = extraction_failed"
    by blast
qed

theorem no_candidate_gives_sentinel_witness:
  "extract_text_from_multimodal_output example_text_env None
       [(cps ''embedding'', PNums PyList [PFloat 0.1, PFloat 0.2])] = extraction_failed
   \<and> (\<exists>r w'. infer_multimodal example_runtime example_engine (cps ''m'')
          (ImgArray \<lparr>img_h = 100, img_w = 400\<rparr>) (cps ''Hi'') None example_world = (Some r, w')
          \<and> r_success r
          \<and> r_outputs r = Some [(cps ''embedding'', PNums PyList [PFloat 0.1, PFloat 0.2])])"
  using no_candidate_gives_sentinel [of example_text_env
      "[(cps ''embedding'', PNums PyList [PFloat 0.1, PFloat 0.2])]"
      None example_engine "cps ''m''" example_model example_runtime
      "ImgArray \<lparr>img_h = 100, img_w = 400\<rparr>" None "[1, 3, 224, 224]" "cps ''Hi''"
      "[PNums PyList [PFloat 0.1, PFloat 0.2]]" example_world]
    example_no_candidate example_model_call example_model_outputs
  by (simp add: example_engine_models example_engine_processors example_runtime_simps
      config_flag_None example_image) blast

subsection \<open>The registry\<close>

text \<open>
  As long as no read of the port metadata raises, every sequence of loads and unloads
  keeps the two dictionaries on the same names.
\<close>

lemma load_model_static_dom:
  assumes "\<And>path cc cm. compile_model rt path cc = Some cm \<Longrightarrow>
             port_info [] (cm_inputs cm) \<noteq> None \<and> port_info [] (cm_outputs cm) \<noteq> None"
    and "dom (models eng) = dom (model_configs eng)"
  shows "dom (models (snd (load_model rt eng name path mtype shapes cc)))
           = dom (model_configs (snd (load_model rt eng name path mtype shapes cc)))"
proof (cases "compile_model rt (path_str rt path) cc")
  case None
  then show ?thesis
    using assms(2) by (simp add: load_model_def)
next
  case (Some cm)
  then obtain ii oi where "port_info [] (cm_inputs cm) = Some ii" "port_info [] (cm_outputs cm) = Some oi"
    using assms(1) by blast
  with Some show ?thesis
    using assms(2) by (simp add: load_model_def Let_def)
qed

lemma unload_model_dom:
  assumes "dom (models eng) = dom (model_configs eng)"
  shows "dom (models (snd (unload_model eng name)))
           = dom (model_configs (snd (unload_model eng name)))"
proof (cases "models eng name")
  case None
  then show ?thesis
    using assms by (simp add: unload_model_def)
next
  case (Some cm)
  then have "name \<in> dom (model_configs eng)"
    using assms by auto
  then obtain c where "model_configs eng name = Some c"
    by auto
  with Some show ?thesis
    using assms by (simp add: unload_model_def Let_def)
qed

lemma registry_invariant_static:
  assumes "\<And>path cc cm. compile_model rt path cc = Some cm \<Longrightarrow>
             port_info [] (cm_inputs cm) \<noteq> None \<and> port_info [] (cm_outputs cm) \<noteq> None"
    and "dom (models eng) = dom (model_configs eng)"
  shows "dom (models (foldl (apply_op rt) eng ops))
           = dom (model_configs (foldl (apply_op rt) eng ops))"
  using assms(2)
proof (induction ops arbitrary: eng)
  case Nil
  then show ?case by simp
next
  case (Cons op ops)
  have "dom (models (apply_op rt eng op)) = dom (model_configs (apply_op rt eng op))"
  proof (cases op)
    case (Load name path mtype shapes cc)
    then show ?thesis
      using load_model_static_dom [OF assms(1) Cons.prems] by simp
  next
    case (Unload name)
    then show ?thesis
      using unload_model_dom [OF Cons.prems] by simp
  qed
  then show ?case
    using Cons.IH by simp
qed

text \<open>
  C9.  The invariant that \<open>models\<close> and \<open>model_configs\<close> have the same names does not
  survive a load that fails after compilation: the compiled model is stored (line 59)
  before the port metadata is read, and when such a read raises, \<open>load_model\<close> returns
  \<open>False\<close> with the model kept in \<open>models\<close> and no entry made in \<open>model_configs\<close>.
\<close>

theorem failed_load_keeps_model:
  assumes "path_exists rt path"
    and "compile_model rt (path_str rt path) compile_config = Some compiled"
    and "port_info [] (cm_inputs compiled) = None \<or> port_info [] (cm_outputs compiled) = None"
  shows "load_model rt eng name path mtype input_shapes compile_config
           = (False, eng\<lparr>models := (models eng)(name \<mapsto> compiled)\<rparr>)"
  using assms by (auto simp: load_model_def Let_def split: option.splits)

text \<open>
  On a new engine, loading the model with a dynamic input shape returns \<open>False\<close> and
  leaves the name in \<open>models\<close> alone.
\<close>

theorem failed_load_keeps_model_witness:
  "load_model example_runtime (new_engine None) (cps ''d'') (cps ''dynamic.xml'') (cps ''vision'')
       None []
     = (False, (new_engine None)\<lparr>models := (models (new_engine None))(cps ''d'' \<mapsto> dynamic_model)\<rparr>)
   \<and> dom (models (snd (load_model example_runtime (new_engine None) (cps ''d'')
         (cps ''dynamic.xml'') (cps ''vision'') None []))) = {cps ''d''}
   \<and> dom (model_configs (snd (load_model example_runtime (new_engine None) (cps ''d'')
         (cps ''dynamic.xml'') (cps ''vision'') None []))) = {}"
proof -
  have 1: "path_exists example_runtime (cps ''dynamic.xml'')"
    by (simp add: example_runtime_def)
  have 2: "compile_model example_runtime (path_str example_runtime (cps ''dynamic.xml'')) []
      = Some dynamic_model"
    by (simp add: example_runtime_def cps_def)
  have 3: "port_info [] (cm_inputs dynamic_model) = None"
    by (simp add: dynamic_model_def)
  show ?thesis
    using failed_load_keeps_model [OF 1 2, of "new_engine None" "cps ''d''" "cps ''vision''" None] 3
    by (simp add: new_engine_def)
qed

subsection \<open>How the image reaches the model\<close>

lemma invocations_append: "invocations (xs @ ys) = invocations xs @ invocations ys"
  by (induction xs rule: invocations.induct) auto

lemma example_inputs_nonempty: "cm_inputs example_model \<noteq> []"
  by (simp add: example_model_def)

text \<open>
  C10.  When the model is loaded, has an input port and the image is preprocessed,
  \<open>infer_image\<close> calls the model once, with the list of the one image tensor, whatever
  the names of the ports; \<open>infer_multimodal\<close> calls it once with the dictionary that
  \<open>multimodal_inputs\<close> builds from the port names.
\<close>

theorem infer_image_positional:
  assumes "models eng name = Some compiled"
    and "image_process_for_inference (rt_image rt) (eng_image_processor eng) image_input
           (config_flag cfg (cps ''maintain_aspect_ratio'')) = Some processed_image"
    and "cm_inputs compiled \<noteq> []"
  shows "invocations (trace (snd (infer_image rt eng name image_input cfg w)))
           = invocations (trace w) @ [(name, Positional [ImageTensor processed_image])]
       \<and> invocations (trace (snd (infer_multimodal rt eng name image_input text_input cfg w)))
           = invocations (trace w) @
               [(name, Named (multimodal_inputs (rt_text rt) processed_image
                   (text_process_for_inference (rt_features rt) (eng_text_processor eng) text_input
                      (config_flag cfg (cps ''return_features''))) (cm_inputs compiled)))]"
proof
  show "invocations (trace (snd (infer_image rt eng name image_input cfg w)))
           = invocations (trace w) @ [(name, Positional [ImageTensor processed_image])]"
    using assms
    by (auto simp: infer_image_def Let_def run_and_collect_def call_model_def time_time_def
        invocations_append split: prod.splits list.splits sum.splits)
  show "invocations (trace (snd (infer_multimodal rt eng name image_input text_input cfg w)))
           = invocations (trace w) @
               [(name, Named (multimodal_inputs (rt_text rt) processed_image
                   (text_process_for_inference (rt_features rt) (eng_text_processor eng) text_input
                      (config_flag cfg (cps ''return_features''))) (cm_inputs compiled)))]"
    using assms
    by (auto simp: infer_multimodal_def Let_def run_and_collect_def call_model_def time_time_def
        invocations_append processed_text_nonempty split: prod.splits list.splits sum.splits)
qed

theorem infer_image_positional_witness:
  "invocations (trace (snd (infer_image example_runtime example_engine (cps ''m'')
      (ImgArray \<lparr>img_h = 100, img_w = 400\<rparr>) None example_world)))
     = [(cps ''m'', Positional [ImageTensor [1, 3, 224, 224]])]"
  using infer_image_positional [of example_engine "cps ''m''" example_model example_runtime
      "ImgArray \<lparr>img_h = 100, img_w = 400\<rparr>" None "[1, 3, 224, 224]" example_world "cps ''Hi''"]
  by (simp add: example_engine_models example_engine_processors example_runtime_simps
      config_flag_None example_image example_inputs_nonempty example_world_def)

subsection \<open>The binding of the image in multimodal inference\<close>

lemma map_of_bind_image_input:
  "map_of (bind_image_input env img ports) n =
     (case first_image_port env ports of
        Some p \<Rightarrow> if any_name p = n then Some (ImageTensor img) else None
      | None \<Rightarrow> None)"
  by (induction ports) (auto simp: first_image_port_def)

lemma map_of_bind_text_ports:
  "map_of (bind_text_ports pt inputs ports) n =
     (if n \<in> any_name ` set ports
      then (case pt n of Some v \<Rightarrow> Some (TextTensor v) | None \<Rightarrow> map_of inputs n)
      else map_of inputs n)"
  by (induction ports arbitrary: inputs) (auto simp: update_conv' split: option.splits)

lemma processed_text_keys:
  "text_process_for_inference feat tp t rf n \<noteq> None \<Longrightarrow>
     n \<in> {cps ''input_ids'', cps ''attention_mask'', cps ''token_type_ids'', cps ''text_features''}"
  by (auto simp: text_process_for_inference_def tokenize_text_def simple_tokenize_def Let_def
      split: option.splits if_splits)

lemma text_keys_not_image_like:
  "\<not> image_like env (cps ''input_ids'')"
  "\<not> image_like env (cps ''attention_mask'')"
  "\<not> image_like env (cps ''token_type_ids'')"
  "\<not> image_like env (cps ''text_features'')"
  by (simp_all add: image_like_def image_input_names_def py_lower_def cps_def)

lemma image_like_not_text_key:
  "image_like env n \<Longrightarrow> text_process_for_inference feat tp t rf n = None"
  using processed_text_keys [of feat tp t rf n] text_keys_not_image_like [of env]
  by (cases "text_process_for_inference feat tp t rf n") auto

lemma first_image_port_like:
  "first_image_port env ports = Some p \<Longrightarrow> image_like env (any_name p) \<and> p \<in> set ports"
  by (auto simp: first_image_port_def find_Some_iff)

text \<open>
  C7.  In the dictionary that multimodal inference passes to the model, a port name is
  bound to an image tensor exactly when it is the name of the first input port whose
  lower-case name contains "image", "images", "pixel_values" or "input_image", and that
  tensor is the preprocessed image.  So no later port of that kind receives it, and no
  port receives it when no name matches.
\<close>

theorem image_bound_to_first_match:
  "map_of (multimodal_inputs env img (text_process_for_inference feat tp t rf) ports) n
       = Some (ImageTensor img') \<longleftrightarrow>
     img' = img \<and> (\<exists>p. first_image_port env ports = Some p \<and> any_name p = n)"
proof (cases "first_image_port env ports")
  case None
  then show ?thesis
    by (auto simp: multimodal_inputs_def map_of_bind_text_ports map_of_bind_image_input
        split: option.splits)
next
  case (Some p)
  then have "text_process_for_inference feat tp t rf (any_name p) = None"
    using first_image_port_like image_like_not_text_key by blast
  with Some show ?thesis
    by (auto simp: multimodal_inputs_def map_of_bind_text_ports map_of_bind_image_input
        split: option.splits)
qed

lemma example_first_image_port:
  "first_image_port example_text_env (cm_inputs example_model)
     = Some \<lparr>any_name = cps ''pixel_values'', port_shape = Some [1, 3, 224, 224],
          element_type = cps ''f32''\<rparr>"
  by (simp add: first_image_port_def example_model_def image_like_def image_input_names_def
      py_lower_def cps_def example_text_env_def)

theorem image_bound_to_first_match_witness:
  "map_of (multimodal_inputs example_text_env [1, 3, 224, 224]
             (text_process_for_inference (\<lambda>t. []) \<lparr>max_length = 512, tp_tokenizer = None\<rparr>
                (cps ''Hi'') False)
             (cm_inputs example_model)) (cps ''pixel_values'')
     = Some (ImageTensor [1, 3, 224, 224])"
  using image_bound_to_first_match [of example_text_env "[1, 3, 224, 224]" "\<lambda>t. []"
      "\<lparr>max_length = 512, tp_tokenizer = None\<rparr>" "cps ''Hi''" False "cm_inputs example_model"
      "cps ''pixel_values''" "[1, 3, 224, 224]"]
  by (simp add: example_first_image_port)

subsection \<open>The benchmark\<close>













subsection \<open>The shape of the image tensor\<close>

lemma cv2_resize_Some:
  "0 < img_h img \<Longrightarrow> 0 < img_w img \<Longrightarrow> 0 < w \<Longrightarrow> 0 < h \<Longrightarrow>
     cv2_resize img (w, h) = Some \<lparr>img_h = h, img_w = w\<rparr>"
  by simp



lemma example_scaled: "exact_scaled_size 400 100 224 224 = (224, 56)"
  by (simp add: exact_scaled_size_def)

lemma example_canvas:
  "resize_on_canvas example_image_env \<lparr>img_h = 100, img_w = 400\<rparr> (224, 224)
     = Some \<lparr>img_h = 224, img_w = 224\<rparr>"
  by (simp add: example_image_env_def example_scaled slice_len_def Let_def)



subsection \<open>Cleaning a text twice\<close>

lemma is_space_simps [simp]: "is_space 32" "is_space 10" "\<not> is_space 39"
  by (simp_all add: is_space_def)




























end
